theory Spec2Isabelle
  imports Complex_Main
begin

section \<open>FileForge: the conversion engine and the batch runner\<close>

text \<open>
  A shallow embedding of \<^verbatim>\<open>fileforge/core/types.py\<close> and
  \<^verbatim>\<open>fileforge/core/fileforge.py\<close>.

  Conventions.
  \<^item> A Python \<^verbatim>\<open>bytes\<close> value is a list of 8-bit characters. A Python
    \<^verbatim>\<open>str\<close> is a \<open>string\<close> holding its UTF-8 encoding, so a character
    outside ASCII takes several \<open>char\<close>s.
  \<^item> An exception (any subclass of \<^verbatim>\<open>Exception\<close>) is a value \<open>PyExc cls msg\<close>,
    where \<open>msg\<close> is what \<^verbatim>\<open>str(e)\<close> returns. A computation that may raise
    has type \<open>pyexc + 'a\<close>, \<open>Inl\<close> being the raise. \<^verbatim>\<open>KeyboardInterrupt\<close>,
    \<^verbatim>\<open>SystemExit\<close> and task cancellation are no \<^verbatim>\<open>Exception\<close>s and
    are not modelled.
  \<^item> The wall-clock fields \<^verbatim>\<open>processing_time\<close> and \<^verbatim>\<open>total_time\<close>
    (differences of two \<^verbatim>\<open>time.time()\<close> readings) are left out of the records.
  \<^item> The values of the option bags (\<^verbatim>\<open>Dict[str, Any]\<close>) are opaque to the engine;
    a bag is an association list from keys to rendered values.
\<close>

type_synonym bytes = "char list"

type_synonym py_dict = "(string \<times> string) list"

datatype pyexc = PyExc (exc_class: string) (exc_str: string)

definition ValueError :: "string \<Rightarrow> pyexc" where
  "ValueError msg = PyExc ''ValueError'' msg"

definition AttributeError :: "string \<Rightarrow> pyexc" where
  "AttributeError msg = PyExc ''AttributeError'' msg"

text \<open>\<^verbatim>\<open>if x:\<close> on an \<^verbatim>\<open>Optional[str]\<close>: \<^verbatim>\<open>None\<close> and the empty string are false.\<close>

fun truthy :: "string option \<Rightarrow> bool" where
  "truthy None = False"
| "truthy (Some s) = (s \<noteq> [])"

subsection \<open>types.py\<close>

datatype CompressionLevel = NONE | LOW | MEDIUM | HIGH | MAXIMUM

fun compression_value :: "CompressionLevel \<Rightarrow> string" where
  "compression_value NONE = ''none''"
| "compression_value LOW = ''low''"
| "compression_value MEDIUM = ''medium''"
| "compression_value HIGH = ''high''"
| "compression_value MAXIMUM = ''maximum''"

text \<open>
  The dataclass does not check the type of \<^verbatim>\<open>compression\<close>: \<^verbatim>\<open>cli.py\<close> and
  \<^verbatim>\<open>examples/basic-usage.py\<close> store the plain string there
  (\<^verbatim>\<open>compression=compress\<close>, \<^verbatim>\<open>compression='high'\<close>). The field holds either an
  enum member or such a string.
\<close>

datatype compression_field = Level CompressionLevel | RawStr string

record ConversionOptions =
  output_format :: "string option"
  output_dir :: "string option"
  output_name :: "string option"
  compression :: compression_field
  quality :: int
  ocr :: bool
  ocr_language :: string
  metadata :: bool
  streaming :: bool
  buffer_size :: int
  format_options :: py_dict
  ai :: "py_dict option"
  tts :: "py_dict option"
  image :: "py_dict option"
  video :: "py_dict option"
  audio :: "py_dict option"
  debug :: bool
  plugin :: "string option"

text \<open>\<^verbatim>\<open>ConversionOptions()\<close>: every field at its default.\<close>

definition default_options :: ConversionOptions where
  "default_options =
     \<lparr>output_format = None, output_dir = None, output_name = None,
      compression = Level MEDIUM, quality = 85, ocr = False, ocr_language = ''por'',
      metadata = False, streaming = False, buffer_size = 256 * 1024,
      format_options = [], ai = None, tts = None, image = None, video = None,
      audio = None, debug = False, plugin = None\<rparr>"

record MetadataResult =
  format :: string
  mime_type :: string
  file_size :: int
  created :: "int option"
  modified :: "int option"
  dimensions :: "(string \<times> int) list option"
  duration :: "real option"
  fps :: "real option"
  bitrate :: "int option"
  exif :: "py_dict option"
  document :: "py_dict option"
  extracted_text :: "string option"
  custom :: py_dict

record ConversionResult =
  success :: bool
  original_format :: string
  result_format :: string
  original_size :: nat
  output_path :: "string option"
  data :: "bytes option"
  output_size :: "nat option"
  result_metadata :: "MetadataResult option"
  errors :: "string list"
  warnings :: "string list"

text \<open>
  The fields \<^verbatim>\<open>output_format\<close> and \<^verbatim>\<open>metadata\<close> of \<^verbatim>\<open>ConversionResult\<close> are
  named \<open>result_format\<close> and \<open>result_metadata\<close> here, since \<^verbatim>\<open>ConversionOptions\<close>
  has fields of the same names.
\<close>

text \<open>
  A callback is a Python callable. Its effect on the caller's side is recorded by the
  batch runner's log of calls; its value here says whether the call raises
  (\<open>Some e\<close>) or returns (\<open>None\<close>).
\<close>

type_synonym progress_callback = "nat \<Rightarrow> nat \<Rightarrow> string \<Rightarrow> pyexc option"

type_synonym error_callback = "pyexc \<Rightarrow> string \<Rightarrow> pyexc option"

record BatchConversionOptions = ConversionOptions +
  patterns :: "string list"
  max_concurrency :: int
  continue_on_error :: bool
  on_progress :: "progress_callback option"
  on_error :: "error_callback option"

text \<open>\<^verbatim>\<open>BatchConversionOptions()\<close>: every field at its default.\<close>

definition default_batch_options :: BatchConversionOptions where
  "default_batch_options =
     ConversionOptions.extend default_options
       (BatchConversionOptions.fields [] 5 True None None)"

record BatchConversionResult =
  total_files :: nat
  success_count :: nat
  error_count :: nat
  results :: "ConversionResult list"
  batch_errors :: "(string \<times> string) list"

text \<open>
  \<open>batch_errors\<close> is the field \<^verbatim>\<open>errors\<close> of \<^verbatim>\<open>BatchConversionResult\<close>: the list of
  \<^verbatim>\<open>{"file": f, "error": msg}\<close> entries, each as the pair \<open>(f, msg)\<close>.
\<close>

text \<open>
  What a plugin's \<^verbatim>\<open>convert\<close> returns: \<^verbatim>\<open>bytes\<close>, a \<^verbatim>\<open>str\<close>, or a value on
  which \<^verbatim>\<open>result.encode('utf-8')\<close> raises (a value that is neither, or a string with a
  lone surrogate), carried with the exception raised.
\<close>

datatype plugin_output = OutBytes bytes | OutStr string | OutBad pyexc

record Plugin =
  name :: string
  version :: string
  input_formats :: "string list"
  output_formats :: "string list"
  plugin_convert :: "bytes \<Rightarrow> ConversionOptions \<Rightarrow> pyexc + plugin_output"

definition can_convert :: "Plugin \<Rightarrow> string \<Rightarrow> string \<Rightarrow> bool" where
  "can_convert p input_format out_format =
     (input_format \<in> set (input_formats p) \<and> out_format \<in> set (output_formats p))"

subsection \<open>The platform: standard library and operating system\<close>

text \<open>
  The functions of \<^verbatim>\<open>pathlib\<close>, \<^verbatim>\<open>mimetypes\<close>, \<^verbatim>\<open>glob\<close> and \<^verbatim>\<open>str\<close>
  that the engine calls are parameters: every theorem below holds whatever they compute.
  \<open>write_error p\<close> is the exception that creating the directories of \<open>p\<close> and
  opening \<open>p\<close> for writing raises, if any.
\<close>

record Platform =
  path_suffix :: "string \<Rightarrow> string"
  path_parent :: "string \<Rightarrow> string"
  path_stem :: "string \<Rightarrow> string"
  path_join :: "string \<Rightarrow> string \<Rightarrow> string"
  str_lower :: "string \<Rightarrow> string"
  guess_type :: "string \<Rightarrow> string option"
  guess_extension :: "string \<Rightarrow> string option"
  glob_glob :: "string \<Rightarrow> string list"
  write_error :: "string \<Rightarrow> pyexc option"

text \<open>
  The file system: what \<^verbatim>\<open>open(path, 'rb').read()\<close> gives for each path, the
  content or the exception raised (no such file, a directory, no permission).
\<close>

type_synonym filesystem = "string \<Rightarrow> pyexc + bytes"

definition read_file :: "filesystem \<Rightarrow> string \<Rightarrow> pyexc + bytes" where
  "read_file fs path = fs path"

definition write_file ::
  "Platform \<Rightarrow> filesystem \<Rightarrow> string \<Rightarrow> bytes \<Rightarrow> pyexc + filesystem" where
  "write_file pf fs path content =
     (case write_error pf path of
        Some e \<Rightarrow> Inl e
      | None \<Rightarrow> Inr (fs(path := Inr content)))"

text \<open>\<^verbatim>\<open>s.lstrip('.')\<close>\<close>

definition lstrip_dot :: "string \<Rightarrow> string" where
  "lstrip_dot s = dropWhile (\<lambda>c. c = CHR ''.'') s"

subsection \<open>The engine object and its plugin registry\<close>

text \<open>
  \<^verbatim>\<open>FileForge\<close> holds a \<^verbatim>\<open>PluginManager\<close>, a \<^verbatim>\<open>MetadataExtractor\<close> and uses
  \<^verbatim>\<open>FileUtils\<close>; none of the three modules is among the sources. The registry is the
  list of registered plugins in registration order; the extractor and the signature
  sniffer are parameters, and each may raise.
\<close>

record FileForge =
  plugin_manager :: "Plugin list"
  metadata_extractor :: "bytes \<Rightarrow> string \<Rightarrow> string option \<Rightarrow> pyexc + MetadataResult"
  detect_format_by_signature :: "bytes \<Rightarrow> pyexc + string"

text \<open>
  Modelled from the spec: \<^verbatim>\<open>PluginManager.is_format_supported\<close> is missing from the
  sources. The spec (4.2): true if any registered plugin declares the format in its
  input (direction "input") or output (direction "output") set.
\<close>

definition is_format_supported :: "FileForge \<Rightarrow> string \<Rightarrow> string \<Rightarrow> bool" where
  "is_format_supported self format_name direction =
     (if direction = ''input'' then list_ex (\<lambda>p. format_name \<in> set (input_formats p)) (plugin_manager self)
      else if direction = ''output'' then list_ex (\<lambda>p. format_name \<in> set (output_formats p)) (plugin_manager self)
      else False)"

text \<open>
  Modelled from the spec: \<^verbatim>\<open>PluginManager.find_plugin\<close> is missing from the sources.
  The spec (4.2): the first registered plugin, in registration order, whose capability
  set contains both formats (\<^verbatim>\<open>Plugin.can_convert\<close> of \<^verbatim>\<open>types.py\<close>).
\<close>

definition find_plugin :: "FileForge \<Rightarrow> string \<Rightarrow> string \<Rightarrow> Plugin option" where
  "find_plugin self input_format out_format =
     find (\<lambda>p. can_convert p input_format out_format) (plugin_manager self)"

subsection \<open>fileforge.py: the private methods\<close>

datatype input_data = InBytes bytes | InPath string | InOther

text \<open>
  \<open>InPath p\<close> is a \<^verbatim>\<open>str\<close> or a \<^verbatim>\<open>Path\<close> whose \<^verbatim>\<open>str()\<close> is \<open>p\<close>;
  \<open>InOther\<close> is a value of any other type.
\<close>

definition a_tilde :: string where
  "a_tilde = [CHR 0xC3, CHR 0xA3]"

definition i_acute :: string where
  "i_acute = [CHR 0xC3, CHR 0xAD]"

definition right_arrow :: string where
  "right_arrow = [CHR 0xE2, CHR 0x86, CHR 0x92]"

definition msg_input_type :: string where
  "msg_input_type = ''Tipo de entrada n'' @ a_tilde @ ''o suportado''"

definition msg_unsupported_input :: "string \<Rightarrow> string" where
  "msg_unsupported_input fmt = ''Formato de entrada n'' @ a_tilde @ ''o suportado: '' @ fmt"

definition msg_unsupported_output :: "string \<Rightarrow> string" where
  "msg_unsupported_output fmt =
     ''Formato de sa'' @ i_acute @ ''da n'' @ a_tilde @ ''o suportado: '' @ fmt"

definition msg_no_conversion :: "string \<Rightarrow> string \<Rightarrow> string" where
  "msg_no_conversion input_format out_format =
     ''Convers'' @ a_tilde @ ''o n'' @ a_tilde @ ''o suportada: '' @ input_format
       @ '' '' @ right_arrow @ '' '' @ out_format"

definition prepare_input ::
  "filesystem \<Rightarrow> input_data \<Rightarrow> pyexc + (bytes \<times> string option)" where
  "prepare_input fs inp =
     (case inp of
        InBytes b \<Rightarrow> Inr (b, None)
      | InPath file_path \<Rightarrow>
          (case read_file fs file_path of
             Inl e \<Rightarrow> Inl e
           | Inr content \<Rightarrow> Inr (content, Some file_path))
      | InOther \<Rightarrow> Inl (ValueError msg_input_type))"

text \<open>
  \<^verbatim>\<open>_detect_format\<close>. The three steps are the three \<^verbatim>\<open>return\<close>s of the source, in its
  order; \<open>detect_by_mime\<close> is the code from \<^verbatim>\<open>mimetypes.guess_type\<close> on.
\<close>

definition detect_by_mime :: "Platform \<Rightarrow> FileForge \<Rightarrow> bytes \<Rightarrow> string option \<Rightarrow> pyexc + string" where
  "detect_by_mime pf self buffer file_path =
     (let mime_type = guess_type pf (''dummy'' @ (if truthy file_path then path_suffix pf (the file_path) else []))
      in if truthy mime_type then
           (let ext = guess_extension pf (the mime_type)
            in if truthy ext then
                 (let ext' = lstrip_dot (the ext)
                  in if is_format_supported self ext' ''input'' then Inr ext'
                     else detect_format_by_signature self buffer)
               else detect_format_by_signature self buffer)
         else detect_format_by_signature self buffer)"

definition detect_format :: "Platform \<Rightarrow> FileForge \<Rightarrow> bytes \<Rightarrow> string option \<Rightarrow> pyexc + string" where
  "detect_format pf self buffer file_path =
     (if truthy file_path then
        (let ext = lstrip_dot (str_lower pf (path_suffix pf (the file_path)))
         in if ext \<noteq> [] \<and> is_format_supported self ext ''input'' then Inr ext
            else detect_by_mime pf self buffer file_path)
      else detect_by_mime pf self buffer file_path)"

text \<open>\<^verbatim>\<open>result if isinstance(result, bytes) else result.encode('utf-8')\<close>\<close>

definition as_bytes :: "plugin_output \<Rightarrow> pyexc + bytes" where
  "as_bytes r = (case r of OutBytes b \<Rightarrow> Inr b | OutStr s \<Rightarrow> Inr s | OutBad e \<Rightarrow> Inl e)"

definition run_plugin :: "Plugin \<Rightarrow> bytes \<Rightarrow> ConversionOptions \<Rightarrow> pyexc + bytes" where
  "run_plugin p input_bytes options =
     (case plugin_convert p input_bytes options of
        Inl e \<Rightarrow> Inl e
      | Inr r \<Rightarrow> as_bytes r)"

text \<open>
  \<^verbatim>\<open>options.compression.value == 'none'\<close>: a plain string has no attribute
  \<^verbatim>\<open>value\<close>.
\<close>

definition msg_no_value :: string where
  "msg_no_value =
     [CHR 0x27] @ ''str'' @ [CHR 0x27] @ '' object has no attribute '' @ [CHR 0x27] @ ''value'' @ [CHR 0x27]"

definition compression_is_none :: "compression_field \<Rightarrow> pyexc + bool" where
  "compression_is_none c =
     (case c of
        Level l \<Rightarrow> Inr (compression_value l = ''none'')
      | RawStr s \<Rightarrow> Inl (AttributeError msg_no_value))"

definition optimize_file ::
  "FileForge \<Rightarrow> bytes \<Rightarrow> string \<Rightarrow> ConversionOptions \<Rightarrow> pyexc + bytes" where
  "optimize_file self input_bytes format_name options =
     (case compression_is_none (compression options) of
        Inl e \<Rightarrow> Inl e
      | Inr True \<Rightarrow> Inr input_bytes
      | Inr False \<Rightarrow>
          (case find_plugin self format_name format_name of
             Some p \<Rightarrow> run_plugin p input_bytes options
           | None \<Rightarrow> Inr input_bytes))"

definition execute_conversion ::
  "FileForge \<Rightarrow> bytes \<Rightarrow> string \<Rightarrow> string \<Rightarrow> ConversionOptions \<Rightarrow> pyexc + bytes" where
  "execute_conversion self input_bytes input_format out_format options =
     (if input_format = out_format then optimize_file self input_bytes out_format options
      else
        (case find_plugin self input_format out_format of
           None \<Rightarrow> Inl (ValueError (msg_no_conversion input_format out_format))
         | Some p \<Rightarrow> run_plugin p input_bytes options))"

definition save_output ::
  "Platform \<Rightarrow> filesystem \<Rightarrow> bytes \<Rightarrow> string \<Rightarrow> ConversionOptions \<Rightarrow> string option
     \<Rightarrow> pyexc + (string \<times> filesystem)" where
  "save_output pf fs content format_name options original_path =
     (let out_dir =
            (if truthy (output_dir options) then the (output_dir options)
             else if truthy original_path then path_parent pf (the original_path)
             else ''./'');
          out_name =
            (if truthy (output_name options) then the (output_name options)
             else if truthy original_path
               then path_stem pf (the original_path) @ ''.'' @ format_name
             else ''output.'' @ format_name);
          out_path = path_join pf out_dir out_name
      in case write_file pf fs out_path content of
           Inl e \<Rightarrow> Inl e
         | Inr fs' \<Rightarrow> Inr (out_path, fs'))"

text \<open>
  \<^verbatim>\<open>extract_metadata\<close>, as \<^verbatim>\<open>convert\<close> calls it: on the buffer, with the detected
  format as the hint.
\<close>

definition extract_metadata ::
  "Platform \<Rightarrow> FileForge \<Rightarrow> filesystem \<Rightarrow> input_data \<Rightarrow> string option \<Rightarrow> pyexc + MetadataResult" where
  "extract_metadata pf self fs inp format_hint =
     (case prepare_input fs inp of
        Inl e \<Rightarrow> Inl e
      | Inr (input_buffer, input_path) \<Rightarrow>
          (case (if truthy format_hint then Inr (the format_hint)
                 else detect_format pf self input_buffer input_path) of
             Inl e \<Rightarrow> Inl e
           | Inr detected_format \<Rightarrow>
               metadata_extractor self input_buffer detected_format input_path))"

subsection \<open>fileforge.py: convert\<close>

text \<open>The \<^verbatim>\<open>ConversionResult\<close> built in the \<^verbatim>\<open>except Exception as e\<close> branch.\<close>

definition failure_result :: "string \<Rightarrow> pyexc \<Rightarrow> ConversionResult" where
  "failure_result out_format e =
     \<lparr>success = False, original_format = ''unknown'', result_format = out_format,
      original_size = 0, output_path = None, data = None, output_size = None,
      result_metadata = None, errors = [exc_str e], warnings = []\<rparr>"

text \<open>
  \<^verbatim>\<open>metadata = None\<close>, then
  \<^verbatim>\<open>if options.metadata: metadata = await self.extract_metadata(input_buffer, original_format)\<close>.
\<close>

definition metadata_step ::
  "Platform \<Rightarrow> FileForge \<Rightarrow> filesystem \<Rightarrow> bytes \<Rightarrow> string \<Rightarrow> ConversionOptions
     \<Rightarrow> pyexc + MetadataResult option" where
  "metadata_step pf self fs input_buffer orig_format options =
     (if metadata options then
        (case extract_metadata pf self fs (InBytes input_buffer) (Some orig_format) of
           Inl e \<Rightarrow> Inl e
         | Inr m \<Rightarrow> Inr (Some m))
      else Inr None)"

text \<open>
  The body of the \<^verbatim>\<open>try\<close> block of \<^verbatim>\<open>convert\<close>: \<open>Inl e\<close> when a statement of the
  block raises \<open>e\<close>, else the result and the file system after the block.
\<close>

definition convert_try ::
  "Platform \<Rightarrow> FileForge \<Rightarrow> filesystem \<Rightarrow> input_data \<Rightarrow> string \<Rightarrow> ConversionOptions
     \<Rightarrow> pyexc + (ConversionResult \<times> filesystem)" where
  "convert_try pf self fs inp out_format options =
     (case prepare_input fs inp of
        Inl e \<Rightarrow> Inl e
      | Inr (input_buffer, input_path) \<Rightarrow>
     (case detect_format pf self input_buffer input_path of
        Inl e \<Rightarrow> Inl e
      | Inr orig_format \<Rightarrow>
     if \<not> is_format_supported self orig_format ''input''
       then Inl (ValueError (msg_unsupported_input orig_format))
     else if \<not> is_format_supported self out_format ''output''
       then Inl (ValueError (msg_unsupported_output out_format))
     else
     (case metadata_step pf self fs input_buffer orig_format options of
        Inl e \<Rightarrow> Inl e
      | Inr md \<Rightarrow>
     (case execute_conversion self input_buffer orig_format out_format options of
        Inl e \<Rightarrow> Inl e
      | Inr output_data \<Rightarrow>
     (let result =
            \<lparr>success = True, original_format = orig_format, result_format = out_format,
             original_size = length input_buffer, output_path = None,
             data = Some output_data, output_size = Some (length output_data),
             result_metadata = md, errors = [], warnings = []\<rparr>
      in if truthy (output_dir options) \<or> truthy (output_name options) then
           (case save_output pf fs output_data out_format options input_path of
              Inl e \<Rightarrow> Inl e
            | Inr (out_path, fs') \<Rightarrow> Inr (result\<lparr>output_path := Some out_path\<rparr>, fs'))
         else Inr (result, fs))))))"

text \<open>
  \<^verbatim>\<open>convert\<close> from the assignment \<^verbatim>\<open>options.output_format = output_format\<close> on, for
  an options object: the assignment, then \<^verbatim>\<open>try\<close> and \<^verbatim>\<open>except Exception\<close>. It
  returns the result, the options object after the call and the file system after the
  call. The same code serves \<^verbatim>\<open>BatchConversionOptions\<close>, a subclass; the plugins see
  the fields of \<^verbatim>\<open>ConversionOptions\<close>.
\<close>

definition convert_with_options ::
  "Platform \<Rightarrow> FileForge \<Rightarrow> filesystem \<Rightarrow> input_data \<Rightarrow> string \<Rightarrow> 'a ConversionOptions_scheme
     \<Rightarrow> pyexc + (ConversionResult \<times> 'a ConversionOptions_scheme \<times> filesystem)" where
  "convert_with_options pf self fs inp out_format options0 =
     (let options = options0\<lparr>output_format := Some out_format\<rparr>
      in case convert_try pf self fs inp out_format (ConversionOptions.truncate options) of
           Inr (result, fs') \<Rightarrow> Inr (result, options, fs')
         | Inl e \<Rightarrow> Inr (failure_result out_format e, options, fs))"

text \<open>
  \<^verbatim>\<open>convert\<close>. \<^verbatim>\<open>options = options or ConversionOptions()\<close>: with \<^verbatim>\<open>None\<close> a fresh
  object is used and the caller has none. The second component of the value is the
  caller's options object after the call.
\<close>

definition convert ::
  "Platform \<Rightarrow> FileForge \<Rightarrow> filesystem \<Rightarrow> input_data \<Rightarrow> string \<Rightarrow> ConversionOptions option
     \<Rightarrow> pyexc + (ConversionResult \<times> ConversionOptions option \<times> filesystem)" where
  "convert pf self fs inp out_format options =
     (case options of
        None \<Rightarrow>
          (case convert_with_options pf self fs inp out_format default_options of
             Inl e \<Rightarrow> Inl e
           | Inr (result, _, fs') \<Rightarrow> Inr (result, None, fs'))
      | Some opts \<Rightarrow>
          (case convert_with_options pf self fs inp out_format opts of
             Inl e \<Rightarrow> Inl e
           | Inr (result, opts', fs') \<Rightarrow> Inr (result, Some opts', fs')))"

subsection \<open>fileforge.py: convert\_batch\<close>

text \<open>
  The variables the tasks of one \<^verbatim>\<open>convert_batch\<close> call share: the file system, the
  options object, the lists \<^verbatim>\<open>results\<close> and \<^verbatim>\<open>errors\<close> of the enclosing call, and
  the calls made to the two callbacks so far, in order.
\<close>

record batch_state =
  bs_fs :: filesystem
  bs_options :: BatchConversionOptions
  var_results :: "ConversionResult list"
  var_errors :: "(string \<times> string) list"
  progress_calls :: "(nat \<times> nat \<times> string) list"
  error_calls :: "(pyexc \<times> string) list"

text \<open>
  An element of the list \<^verbatim>\<open>asyncio.gather(*tasks, return_exceptions=True)\<close> returns:
  what the task returned, or the exception it raised.
\<close>

datatype task_outcome = Returned "ConversionResult option" | Raised pyexc

text \<open>The \<^verbatim>\<open>try\<close> block of \<^verbatim>\<open>convert_file\<close>.\<close>

definition convert_file_try ::
  "Platform \<Rightarrow> FileForge \<Rightarrow> string \<Rightarrow> nat \<Rightarrow> batch_state \<Rightarrow> string
     \<Rightarrow> (pyexc + ConversionResult) \<times> batch_state" where
  "convert_file_try pf self out_format n_total st file_path =
     (case convert_with_options pf self (bs_fs st) (InPath file_path) out_format (bs_options st) of
        Inl e \<Rightarrow> (Inl e, st)
      | Inr (result, options', fs') \<Rightarrow>
          (let st1 = st\<lparr>bs_fs := fs', bs_options := options'\<rparr>
           in case on_progress options' of
                None \<Rightarrow> (Inr result, st1)
              | Some callback \<Rightarrow>
                  (let current = length (var_results st1) + 1;
                       st2 = st1\<lparr>progress_calls := progress_calls st1 @ [(current, n_total, file_path)]\<rparr>
                   in case callback current n_total file_path of
                        None \<Rightarrow> (Inr result, st2)
                      | Some e \<Rightarrow> (Inl e, st2))))"

text \<open>The \<^verbatim>\<open>except Exception as e\<close> block of \<^verbatim>\<open>convert_file\<close>.\<close>

definition convert_file_except ::
  "batch_state \<Rightarrow> string \<Rightarrow> pyexc \<Rightarrow> task_outcome \<times> batch_state" where
  "convert_file_except st file_path e =
     (let st1 = st\<lparr>var_errors := var_errors st @ [(file_path, exc_str e)]\<rparr>;
          finish = (if \<not> continue_on_error (bs_options st1) then Raised e else Returned None)
      in case on_error (bs_options st1) of
           None \<Rightarrow> (finish, st1)
         | Some callback \<Rightarrow>
             (let st2 = st1\<lparr>error_calls := error_calls st1 @ [(e, file_path)]\<rparr>
              in case callback e file_path of
                   Some e' \<Rightarrow> (Raised e', st2)
                 | None \<Rightarrow> (finish, st2)))"

definition convert_file ::
  "Platform \<Rightarrow> FileForge \<Rightarrow> string \<Rightarrow> nat \<Rightarrow> batch_state \<Rightarrow> string
     \<Rightarrow> task_outcome \<times> batch_state" where
  "convert_file pf self out_format n_total st file_path =
     (case convert_file_try pf self out_format n_total st file_path of
        (Inr result, st') \<Rightarrow> (Returned (Some result), st')
      | (Inl e, st') \<Rightarrow> convert_file_except st' file_path e)"

text \<open>
  \<^verbatim>\<open>asyncio.gather\<close> over the tasks, with \<^verbatim>\<open>return_exceptions=True\<close>. The engine's own
  coroutines never suspend (file access is synchronous) and a plugin is a function here,
  so with a semaphore of at least one slot each task runs from its start to its end in
  the order the tasks were created, and the list of outcomes is in that order.
\<close>

fun gather ::
  "Platform \<Rightarrow> FileForge \<Rightarrow> string \<Rightarrow> nat \<Rightarrow> batch_state \<Rightarrow> string list
     \<Rightarrow> task_outcome list \<times> batch_state" where
  "gather pf self out_format n_total st [] = ([], st)"
| "gather pf self out_format n_total st (file_path # files) =
     (case convert_file pf self out_format n_total st file_path of
        (r, st1) \<Rightarrow>
          (case gather pf self out_format n_total st1 files of
             (rs, st2) \<Rightarrow> (r # rs, st2)))"

text \<open>\<^verbatim>\<open>[r for r in completed_results if isinstance(r, ConversionResult)]\<close>\<close>

fun conversion_results :: "task_outcome list \<Rightarrow> ConversionResult list" where
  "conversion_results [] = []"
| "conversion_results (Returned (Some r) # rs) = r # conversion_results rs"
| "conversion_results (_ # rs) = conversion_results rs"

datatype patterns_arg = OnePattern string | PatternList "string list"

definition patterns_list :: "patterns_arg \<Rightarrow> string list" where
  "patterns_list pats = (case pats of OnePattern p \<Rightarrow> [p] | PatternList ps \<Rightarrow> ps)"

text \<open>\<^verbatim>\<open>options = options or BatchConversionOptions()\<close>\<close>

definition batch_options_or_default :: "BatchConversionOptions option \<Rightarrow> BatchConversionOptions" where
  "batch_options_or_default options_arg =
     (case options_arg of None \<Rightarrow> default_batch_options | Some opts \<Rightarrow> opts)"

definition msg_semaphore :: string where
  "msg_semaphore = ''Semaphore initial value must be >= 0''"

text \<open>
  \<^verbatim>\<open>convert_batch\<close>. The value is \<open>None\<close> when the call never returns: with
  \<^verbatim>\<open>asyncio.Semaphore(0)\<close> every task waits for a slot that is never released.
  \<^verbatim>\<open>asyncio.Semaphore\<close> raises \<^verbatim>\<open>ValueError\<close> on a negative value. Otherwise the value
  is the result together with the final state of the shared variables, which holds the
  calls the callbacks received.
\<close>

definition convert_batch ::
  "Platform \<Rightarrow> FileForge \<Rightarrow> filesystem \<Rightarrow> patterns_arg \<Rightarrow> string \<Rightarrow> BatchConversionOptions option
     \<Rightarrow> (pyexc + (BatchConversionResult \<times> batch_state)) option" where
  "convert_batch pf self fs pats out_format options_arg =
     (let options = batch_options_or_default options_arg;
          files = concat (map (glob_glob pf) (patterns_list pats));
          n_total = length files;
          st0 = \<lparr>bs_fs = fs, bs_options = options, var_results = [], var_errors = [],
                 progress_calls = [], error_calls = []\<rparr>
      in if max_concurrency options < 0 then Some (Inl (ValueError msg_semaphore))
         else if max_concurrency options = 0 \<and> files \<noteq> [] then None
         else
           (case gather pf self out_format n_total st0 files of
              (completed_results, st) \<Rightarrow>
                (let rs = conversion_results completed_results
                 in Some (Inr (\<lparr>total_files = n_total,
                                 success_count = length (filter success rs),
                                 error_count = length (var_errors st),
                                 results = rs,
                                 batch_errors = var_errors st\<rparr>,
                               st\<lparr>var_results := rs\<rparr>)))))"

subsection \<open>Notions used to state the properties\<close>

text \<open>
  The options object the \<^verbatim>\<open>try\<close> block of \<^verbatim>\<open>convert\<close> works with (the caller's, or
  a fresh one, after the assignment to \<^verbatim>\<open>output_format\<close>), and the caller's own
  object after the call.
\<close>

definition effective_options :: "string \<Rightarrow> ConversionOptions option \<Rightarrow> ConversionOptions" where
  "effective_options out_format options =
     (case options of None \<Rightarrow> default_options | Some opts \<Rightarrow> opts)\<lparr>output_format := Some out_format\<rparr>"

definition caller_options :: "string \<Rightarrow> ConversionOptions option \<Rightarrow> ConversionOptions option" where
  "caller_options out_format options =
     map_option (\<lambda>opts. opts\<lparr>output_format := Some out_format\<rparr>) options"

text \<open>
  A call of \<^verbatim>\<open>convert\<close> reports a failure with message \<open>msg\<close>: it returns a result
  with \<^verbatim>\<open>success=False\<close>, no data, and \<open>msg\<close> as the content of \<^verbatim>\<open>errors\<close>.
\<close>

definition failed_with ::
  "string \<Rightarrow> pyexc + (ConversionResult \<times> ConversionOptions option \<times> filesystem) \<Rightarrow> bool" where
  "failed_with msg outcome =
     (case outcome of
        Inl e \<Rightarrow> False
      | Inr (r, opts, fs) \<Rightarrow> \<not> success r \<and> data r = None \<and> errors r = [msg])"

text \<open>The result of a call of \<^verbatim>\<open>convert\<close>, and the caller's options object after it.\<close>

definition result_of ::
  "pyexc + (ConversionResult \<times> ConversionOptions option \<times> filesystem) \<Rightarrow> ConversionResult option" where
  "result_of outcome = (case outcome of Inl e \<Rightarrow> None | Inr (r, opts, fs) \<Rightarrow> Some r)"

definition options_after ::
  "pyexc + (ConversionResult \<times> ConversionOptions option \<times> filesystem) \<Rightarrow> ConversionOptions option" where
  "options_after outcome = (case outcome of Inl e \<Rightarrow> None | Inr (r, opts, fs) \<Rightarrow> opts)"

text \<open>
  The result of a call of \<^verbatim>\<open>convert_batch\<close> that returns, and the shared variables
  at its end.
\<close>

definition batch_result_of ::
  "(pyexc + (BatchConversionResult \<times> batch_state)) option \<Rightarrow> BatchConversionResult option" where
  "batch_result_of outcome = (case outcome of Some (Inr (r, st)) \<Rightarrow> Some r | _ \<Rightarrow> None)"

definition batch_state_of ::
  "(pyexc + (BatchConversionResult \<times> batch_state)) option \<Rightarrow> batch_state option" where
  "batch_state_of outcome = (case outcome of Some (Inr (r, st)) \<Rightarrow> Some st | _ \<Rightarrow> None)"

text \<open>
  The format detector in the words of the spec (4.1): the candidates are, in priority
  order, the lowercased extension of the path hint (when a hint is given and has an
  extension) and the extension that the MIME type inferred from the placeholder name
  maps back to; the first candidate that is a registered input format wins, and with
  none the signature of the buffer decides.
\<close>

definition hint_extension :: "Platform \<Rightarrow> string option \<Rightarrow> string option" where
  "hint_extension pf file_path =
     (case file_path of
        None \<Rightarrow> None
      | Some p \<Rightarrow>
          if p = [] \<or> lstrip_dot (str_lower pf (path_suffix pf p)) = [] then None
          else Some (lstrip_dot (str_lower pf (path_suffix pf p))))"

definition placeholder_name :: "Platform \<Rightarrow> string option \<Rightarrow> string" where
  "placeholder_name pf file_path =
     (case file_path of
        None \<Rightarrow> ''dummy''
      | Some p \<Rightarrow> if p = [] then ''dummy'' else ''dummy'' @ path_suffix pf p)"

definition mime_extension :: "Platform \<Rightarrow> string option \<Rightarrow> string option" where
  "mime_extension pf file_path =
     (case guess_type pf (placeholder_name pf file_path) of
        None \<Rightarrow> None
      | Some m \<Rightarrow>
          if m = [] then None
          else (case guess_extension pf m of
                  None \<Rightarrow> None
                | Some e \<Rightarrow> if e = [] then None else Some (lstrip_dot e)))"

definition detect_spec :: "Platform \<Rightarrow> FileForge \<Rightarrow> bytes \<Rightarrow> string option \<Rightarrow> pyexc + string" where
  "detect_spec pf self buffer file_path =
     (case find (\<lambda>e. is_format_supported self e ''input'')
             (List.map_filter id [hint_extension pf file_path, mime_extension pf file_path]) of
        Some e \<Rightarrow> Inr e
      | None \<Rightarrow> detect_format_by_signature self buffer)"

subsection \<open>A concrete engine\<close>

text \<open>
  A small platform, registry and file system on which the definitions are evaluated.
  The registry holds three plugins: one converts \<open>txt\<close> to \<open>md\<close> by reversing the
  bytes, one converts \<open>pdf\<close> to \<open>txt\<close> and returns a string, one claims \<open>csv\<close> to
  \<open>md\<close> and raises. The signature sniffer knows PDF and PNG.
\<close>

definition ex_suffix :: "string \<Rightarrow> string" where
  "ex_suffix p =
     (if CHR ''.'' \<in> set p then CHR ''.'' # rev (takeWhile (\<lambda>c. c \<noteq> CHR ''.'') (rev p)) else [])"

definition ex_platform :: Platform where
  "ex_platform =
     \<lparr>path_suffix = ex_suffix,
      path_parent = (\<lambda>p. ''.''),
      path_stem = takeWhile (\<lambda>c. c \<noteq> CHR ''.''),
      path_join = (\<lambda>d n. d @ ''/'' @ n),
      str_lower = (\<lambda>s. s),
      guess_type = (\<lambda>n. if n = ''dummy.text'' then Some ''text/plain'' else None),
      guess_extension = (\<lambda>m. if m = ''text/plain'' then Some ''.txt'' else None),
      glob_glob = (\<lambda>pat. if pat = ''*.txt'' then [''a.txt'', ''b.txt'']
                          else if pat = ''a.*'' then [''a.txt''] else []),
      write_error = (\<lambda>p. if p = ''/proc/out.md'' then Some (PyExc ''PermissionError'' ''denied'')
                         else None)\<rparr>"

definition ex_plugin :: Plugin where
  "ex_plugin =
     \<lparr>name = ''reverse'', version = ''1.0.0'', input_formats = [''txt''],
      output_formats = [''md''],
      plugin_convert = (\<lambda>b opts. Inr (OutBytes (rev b)))\<rparr>"

definition ex_pdf_plugin :: Plugin where
  "ex_pdf_plugin =
     \<lparr>name = ''pdf-text'', version = ''1.0.0'', input_formats = [''pdf''],
      output_formats = [''txt''],
      plugin_convert = (\<lambda>b opts. Inr (OutStr ''text''))\<rparr>"

definition ex_broken_plugin :: Plugin where
  "ex_broken_plugin =
     \<lparr>name = ''broken'', version = ''0.1.0'', input_formats = [''csv''],
      output_formats = [''md''],
      plugin_convert = (\<lambda>b opts. Inl (PyExc ''RuntimeError'' ''corrupt input''))\<rparr>"

definition ex_metadata :: "bytes \<Rightarrow> string \<Rightarrow> MetadataResult" where
  "ex_metadata b f =
     \<lparr>format = f, mime_type = ''text/plain'', file_size = int (length b), created = None,
      modified = None, dimensions = None, duration = None, fps = None, bitrate = None,
      exif = None, document = None, extracted_text = None, custom = []\<rparr>"

definition ex_sniffer :: "bytes \<Rightarrow> pyexc + string" where
  "ex_sniffer b =
     (if take 4 b = ''%PDF'' then Inr ''pdf''
      else if take 4 b = CHR 0x89 # ''PNG'' then Inr ''png''
      else Inl (ValueError ''unknown format''))"

definition ex_forge :: FileForge where
  "ex_forge =
     \<lparr>plugin_manager = [ex_plugin, ex_pdf_plugin, ex_broken_plugin],
      metadata_extractor = (\<lambda>b f p. Inr (ex_metadata b f)),
      detect_format_by_signature = ex_sniffer\<rparr>"

text \<open>The same engine with a metadata extractor that raises.\<close>

definition ex_forge_no_metadata :: FileForge where
  "ex_forge_no_metadata =
     ex_forge\<lparr>metadata_extractor := (\<lambda>b f p. Inl (PyExc ''RuntimeError'' ''no metadata''))\<rparr>"

definition ex_fs :: filesystem where
  "ex_fs = (\<lambda>p. if p = ''a.txt'' then Inr ''hello''
                 else if p = ''b.txt'' then Inr ''world''
                 else if p = ''notes.text'' then Inr ''plain''
                 else if p = ''data.csv'' then Inr ''1,2''
                 else Inl (PyExc ''FileNotFoundError'' p))"

text \<open>A progress callback that returns, one that raises, and an error callback.\<close>

definition ex_progress_ok :: progress_callback where
  "ex_progress_ok current n_total file_path = None"

definition ex_progress_raises :: progress_callback where
  "ex_progress_raises current n_total file_path = Some (PyExc ''RuntimeError'' ''boom'')"

definition ex_error_ok :: error_callback where
  "ex_error_ok e file_path = None"

text \<open>
  Batch options with a progress callback, and batch options that ask to stop at the
  first error, with a progress callback that raises.
\<close>

definition ex_progress_options :: BatchConversionOptions where
  "ex_progress_options = default_batch_options\<lparr>on_progress := Some ex_progress_ok\<rparr>"

definition ex_stop_options :: BatchConversionOptions where
  "ex_stop_options =
     default_batch_options\<lparr>continue_on_error := False, on_progress := Some ex_progress_raises,
       on_error := Some ex_error_ok\<rparr>"

section \<open>Properties of convert\<close>

subsection \<open>The try block, step by step\<close>

lemma truncate_base: "ConversionOptions.truncate (opts :: ConversionOptions) = opts"
  by (cases opts) (simp add: ConversionOptions.truncate_def)

lemma convert_eq:
  "convert pf self fs inp out_format options =
     (case convert_try pf self fs inp out_format (effective_options out_format options) of
        Inl e \<Rightarrow> Inr (failure_result out_format e, caller_options out_format options, fs)
      | Inr (r, fs') \<Rightarrow> Inr (r, caller_options out_format options, fs'))"
  by (cases options)
     (simp_all add: convert_def convert_with_options_def effective_options_def
        caller_options_def truncate_base Let_def split: sum.splits prod.splits)

lemma convert_try_success:
  assumes "convert_try pf self fs inp out_format options = Inr (r, fs')"
  shows "success r \<and> data r \<noteq> None \<and> errors r = [] \<and> warnings r = []"
  using assms
  by (auto simp: convert_try_def Let_def split: sum.splits prod.splits if_splits)

lemma convert_failed_with:
  assumes "convert_try pf self fs inp out_format (effective_options out_format options) = Inl e"
  shows "failed_with (exc_str e) (convert pf self fs inp out_format options)"
  using assms by (simp add: convert_eq failed_with_def failure_result_def)

lemma convert_returns:
  "\<exists>r opts' fs'. convert pf self fs inp out_format options = Inr (r, opts', fs')"
  by (simp add: convert_eq split: sum.splits prod.splits)

lemma try_read_error:
  assumes "read_file fs p = Inl e"
  shows "convert_try pf self fs (InPath p) out_format opts = Inl e"
  using assms by (simp add: convert_try_def prepare_input_def)

lemma try_input_type:
  "convert_try pf self fs InOther out_format opts = Inl (ValueError msg_input_type)"
  by (simp add: convert_try_def prepare_input_def)

lemma try_detect_error:
  assumes "prepare_input fs inp = Inr (buf, path)" and "detect_format pf self buf path = Inl e"
  shows "convert_try pf self fs inp out_format opts = Inl e"
  using assms by (simp add: convert_try_def)

lemma try_unsupported_input:
  assumes "prepare_input fs inp = Inr (buf, path)" and "detect_format pf self buf path = Inr f"
    and "\<not> is_format_supported self f ''input''"
  shows "convert_try pf self fs inp out_format opts = Inl (ValueError (msg_unsupported_input f))"
  using assms by (simp add: convert_try_def)

lemma try_unsupported_output:
  assumes "prepare_input fs inp = Inr (buf, path)" and "detect_format pf self buf path = Inr f"
    and "is_format_supported self f ''input''"
    and "\<not> is_format_supported self out_format ''output''"
  shows "convert_try pf self fs inp out_format opts = Inl (ValueError (msg_unsupported_output out_format))"
  using assms by (simp add: convert_try_def)

lemma try_metadata_error:
  assumes "prepare_input fs inp = Inr (buf, path)" and "detect_format pf self buf path = Inr f"
    and "is_format_supported self f ''input''"
    and "is_format_supported self out_format ''output''"
    and "metadata_step pf self fs buf f opts = Inl e"
  shows "convert_try pf self fs inp out_format opts = Inl e"
  using assms by (simp add: convert_try_def)

lemma try_execute_error:
  assumes "prepare_input fs inp = Inr (buf, path)" and "detect_format pf self buf path = Inr f"
    and "is_format_supported self f ''input''"
    and "is_format_supported self out_format ''output''"
    and "metadata_step pf self fs buf f opts = Inr md"
    and "execute_conversion self buf f out_format opts = Inl e"
  shows "convert_try pf self fs inp out_format opts = Inl e"
  using assms by (simp add: convert_try_def)

lemma try_save_error:
  assumes "prepare_input fs inp = Inr (buf, path)" and "detect_format pf self buf path = Inr f"
    and "is_format_supported self f ''input''"
    and "is_format_supported self out_format ''output''"
    and "metadata_step pf self fs buf f opts = Inr md"
    and "execute_conversion self buf f out_format opts = Inr output_data"
    and "truthy (output_dir opts) \<or> truthy (output_name opts)"
    and "save_output pf fs output_data out_format opts path = Inl e"
  shows "convert_try pf self fs inp out_format opts = Inl e"
  using assms by (simp add: convert_try_def Let_def)

lemma try_success:
  assumes "prepare_input fs inp = Inr (buf, path)" and "detect_format pf self buf path = Inr f"
    and "is_format_supported self f ''input''"
    and "is_format_supported self out_format ''output''"
    and "metadata_step pf self fs buf f opts = Inr md"
    and "execute_conversion self buf f out_format opts = Inr output_data"
    and "\<not> (truthy (output_dir opts) \<or> truthy (output_name opts)) \<or>
         (\<exists>saved. save_output pf fs output_data out_format opts path = Inr saved)"
  shows "\<exists>r fs'. convert_try pf self fs inp out_format opts = Inr (r, fs') \<and> success r
           \<and> data r = Some output_data"
  using assms by (auto simp: convert_try_def Let_def)

lemma execute_no_plugin:
  assumes "f \<noteq> out_format" and "find_plugin self f out_format = None"
  shows "execute_conversion self buf f out_format opts = Inl (ValueError (msg_no_conversion f out_format))"
  using assms by (simp add: execute_conversion_def)

lemma execute_plugin:
  assumes "f \<noteq> out_format" and "find_plugin self f out_format = Some p"
  shows "execute_conversion self buf f out_format opts = run_plugin p buf opts"
  using assms by (simp add: execute_conversion_def)

lemma execute_same_format_none:
  assumes "compression opts = Level NONE"
  shows "execute_conversion self buf f f opts = Inr buf"
  using assms by (simp add: execute_conversion_def optimize_file_def compression_is_none_def)

subsection \<open>Failures are reported, not raised\<close>

text \<open>
  Claim C1. For every input, output format and options value, \<^verbatim>\<open>convert\<close> returns a
  \<^verbatim>\<open>ConversionResult\<close> and raises nothing: whatever exception the \<^verbatim>\<open>try\<close> block
  raises is reported as a result with \<^verbatim>\<open>success=False\<close> whose \<^verbatim>\<open>errors\<close> list holds
  the message of the exception. In particular this is so for an I/O error on reading
  the input, a failure of format detection, an unsupported input format, an unsupported
  output format, no matching plugin, an exception of the plugin, and an I/O error on
  saving the output; the messages of the engine's own errors are the ones of the source.
\<close>

theorem convert_captures_failures:
  "(\<exists>r opts' fs'. convert pf self fs inp out_format options = Inr (r, opts', fs'))
   \<and> (\<forall>e. convert_try pf self fs inp out_format (effective_options out_format options) = Inl e
          \<longrightarrow> failed_with (exc_str e) (convert pf self fs inp out_format options))
   \<and> (\<forall>p e. inp = InPath p \<and> read_file fs p = Inl e
          \<longrightarrow> failed_with (exc_str e) (convert pf self fs inp out_format options))
   \<and> (\<forall>buf path. prepare_input fs inp = Inr (buf, path) \<longrightarrow>
        (\<forall>e. detect_format pf self buf path = Inl e
           \<longrightarrow> failed_with (exc_str e) (convert pf self fs inp out_format options))
      \<and> (\<forall>f. detect_format pf self buf path = Inr f \<longrightarrow>
           (\<not> is_format_supported self f ''input''
              \<longrightarrow> failed_with (msg_unsupported_input f) (convert pf self fs inp out_format options))
         \<and> (is_format_supported self f ''input'' \<and> \<not> is_format_supported self out_format ''output''
              \<longrightarrow> failed_with (msg_unsupported_output out_format)
                    (convert pf self fs inp out_format options))
         \<and> (\<forall>md. is_format_supported self f ''input'' \<and> is_format_supported self out_format ''output''
                \<and> metadata_step pf self fs buf f (effective_options out_format options) = Inr md \<longrightarrow>
              (f \<noteq> out_format \<and> find_plugin self f out_format = None
                 \<longrightarrow> failed_with (msg_no_conversion f out_format)
                       (convert pf self fs inp out_format options))
            \<and> (\<forall>p e. f \<noteq> out_format \<and> find_plugin self f out_format = Some p
                    \<and> run_plugin p buf (effective_options out_format options) = Inl e
                 \<longrightarrow> failed_with (exc_str e) (convert pf self fs inp out_format options))
            \<and> (\<forall>output_data e.
                    execute_conversion self buf f out_format (effective_options out_format options)
                      = Inr output_data
                    \<and> (truthy (output_dir (effective_options out_format options))
                         \<or> truthy (output_name (effective_options out_format options)))
                    \<and> save_output pf fs output_data out_format
                         (effective_options out_format options) path = Inl e
                 \<longrightarrow> failed_with (exc_str e) (convert pf self fs inp out_format options)))))"
proof -
  let ?opts = "effective_options out_format options"
  let ?c = "convert pf self fs inp out_format options"
  have ret: "\<exists>r opts' fs'. ?c = Inr (r, opts', fs')"
    by (rule convert_returns)
  have cap: "\<And>e. convert_try pf self fs inp out_format ?opts = Inl e \<Longrightarrow> failed_with (exc_str e) ?c"
    by (rule convert_failed_with)
  have io: "\<And>p e. inp = InPath p \<and> read_file fs p = Inl e \<Longrightarrow> failed_with (exc_str e) ?c"
    using cap try_read_error by blast
  have det: "\<And>buf path e. prepare_input fs inp = Inr (buf, path) \<Longrightarrow>
      detect_format pf self buf path = Inl e \<Longrightarrow> failed_with (exc_str e) ?c"
    using cap try_detect_error by blast
  have uin: "\<And>buf path f. prepare_input fs inp = Inr (buf, path) \<Longrightarrow>
      detect_format pf self buf path = Inr f \<Longrightarrow> \<not> is_format_supported self f ''input'' \<Longrightarrow>
      failed_with (msg_unsupported_input f) ?c"
    using cap [OF try_unsupported_input] by (simp add: ValueError_def)
  have uout: "\<And>buf path f. prepare_input fs inp = Inr (buf, path) \<Longrightarrow>
      detect_format pf self buf path = Inr f \<Longrightarrow> is_format_supported self f ''input'' \<Longrightarrow>
      \<not> is_format_supported self out_format ''output'' \<Longrightarrow>
      failed_with (msg_unsupported_output out_format) ?c"
    using cap [OF try_unsupported_output] by (simp add: ValueError_def)
  have exe: "\<And>buf path f md e. prepare_input fs inp = Inr (buf, path) \<Longrightarrow>
      detect_format pf self buf path = Inr f \<Longrightarrow> is_format_supported self f ''input'' \<Longrightarrow>
      is_format_supported self out_format ''output'' \<Longrightarrow>
      metadata_step pf self fs buf f ?opts = Inr md \<Longrightarrow>
      execute_conversion self buf f out_format ?opts = Inl e \<Longrightarrow> failed_with (exc_str e) ?c"
    using cap [OF try_execute_error] by blast
  have nop: "\<And>buf path f md. prepare_input fs inp = Inr (buf, path) \<Longrightarrow>
      detect_format pf self buf path = Inr f \<Longrightarrow> is_format_supported self f ''input'' \<Longrightarrow>
      is_format_supported self out_format ''output'' \<Longrightarrow>
      metadata_step pf self fs buf f ?opts = Inr md \<Longrightarrow>
      f \<noteq> out_format \<Longrightarrow> find_plugin self f out_format = None \<Longrightarrow>
      failed_with (msg_no_conversion f out_format) ?c"
    using exe [OF _ _ _ _ _ execute_no_plugin] by (simp add: ValueError_def)
  have plg: "\<And>buf path f md p e. prepare_input fs inp = Inr (buf, path) \<Longrightarrow>
      detect_format pf self buf path = Inr f \<Longrightarrow> is_format_supported self f ''input'' \<Longrightarrow>
      is_format_supported self out_format ''output'' \<Longrightarrow>
      metadata_step pf self fs buf f ?opts = Inr md \<Longrightarrow>
      f \<noteq> out_format \<Longrightarrow> find_plugin self f out_format = Some p \<Longrightarrow>
      run_plugin p buf ?opts = Inl e \<Longrightarrow> failed_with (exc_str e) ?c"
    using exe by (simp add: execute_plugin)
  have sav: "\<And>buf path f md output_data e. prepare_input fs inp = Inr (buf, path) \<Longrightarrow>
      detect_format pf self buf path = Inr f \<Longrightarrow> is_format_supported self f ''input'' \<Longrightarrow>
      is_format_supported self out_format ''output'' \<Longrightarrow>
      metadata_step pf self fs buf f ?opts = Inr md \<Longrightarrow>
      execute_conversion self buf f out_format ?opts = Inr output_data \<Longrightarrow>
      truthy (output_dir ?opts) \<or> truthy (output_name ?opts) \<Longrightarrow>
      save_output pf fs output_data out_format ?opts path = Inl e \<Longrightarrow> failed_with (exc_str e) ?c"
    using cap [OF try_save_error] by blast
  show ?thesis
    by (intro conjI allI impI; (elim conjE)?)
       (rule ret, erule cap, (rule io; blast), (erule (1) det), (erule (2) uin),
        (erule (3) uout), (erule (6) nop), (erule (7) plg), (erule (7) sav))
qed


text \<open>One call for each kind of failure, on the concrete engine.\<close>

theorem convert_captures_failures_witness:
  "failed_with ''missing.txt'' (convert ex_platform ex_forge ex_fs (InPath ''missing.txt'') ''md'' None)
   \<and> failed_with ''unknown format'' (convert ex_platform ex_forge ex_fs (InBytes ''hello'') ''md'' None)
   \<and> failed_with (msg_unsupported_input ''png'')
        (convert ex_platform ex_forge ex_fs (InBytes (CHR 0x89 # ''PNG....'')) ''md'' None)
   \<and> failed_with (msg_unsupported_output ''pdf'')
        (convert ex_platform ex_forge ex_fs (InPath ''a.txt'') ''pdf'' None)
   \<and> failed_with (msg_no_conversion ''pdf'' ''md'')
        (convert ex_platform ex_forge ex_fs (InBytes ''%PDF-1.4'') ''md'' None)
   \<and> failed_with ''corrupt input''
        (convert ex_platform ex_forge ex_fs (InPath ''data.csv'') ''md'' None)
   \<and> failed_with ''denied''
        (convert ex_platform ex_forge ex_fs (InPath ''a.txt'') ''md''
           (Some (default_options\<lparr>output_dir := Some ''/proc'', output_name := Some ''out.md''\<rparr>)))"
proof -
  note inst = convert_captures_failures [of ex_platform ex_forge ex_fs]
  let ?save = "default_options\<lparr>output_dir := Some ''/proc'', output_name := Some ''out.md''\<rparr>"
  have io: "read_file ex_fs ''missing.txt'' = Inl (PyExc ''FileNotFoundError'' ''missing.txt'')"
    by code_simp
  have c1: "failed_with ''missing.txt''
      (convert ex_platform ex_forge ex_fs (InPath ''missing.txt'') ''md'' None)"
    using inst [of "InPath ''missing.txt''" "''md''" None] io by fastforce
  have p2: "prepare_input ex_fs (InBytes ''hello'') = Inr (''hello'', None)"
    by code_simp
  have d2: "detect_format ex_platform ex_forge ''hello'' None
      = Inl (PyExc ''ValueError'' ''unknown format'')"
    by code_simp
  have c2: "failed_with ''unknown format''
      (convert ex_platform ex_forge ex_fs (InBytes ''hello'') ''md'' None)"
    using inst [of "InBytes ''hello''" "''md''" None] p2 d2 by fastforce
  have p3: "prepare_input ex_fs (InBytes (CHR 0x89 # ''PNG....'')) = Inr (CHR 0x89 # ''PNG....'', None)"
    by code_simp
  have d3: "detect_format ex_platform ex_forge (CHR 0x89 # ''PNG....'') None = Inr ''png''"
    by code_simp
  have s3: "\<not> is_format_supported ex_forge ''png'' ''input''"
    by code_simp
  have c3: "failed_with (msg_unsupported_input ''png'')
      (convert ex_platform ex_forge ex_fs (InBytes (CHR 0x89 # ''PNG....'')) ''md'' None)"
    using inst [of "InBytes (CHR 0x89 # ''PNG....'')" "''md''" None] p3 d3 s3 by blast
  have p4: "prepare_input ex_fs (InPath ''a.txt'') = Inr (''hello'', Some ''a.txt'')"
    by code_simp
  have d4: "detect_format ex_platform ex_forge ''hello'' (Some ''a.txt'') = Inr ''txt''"
    by code_simp
  have s4: "is_format_supported ex_forge ''txt'' ''input''"
    and t4: "\<not> is_format_supported ex_forge ''pdf'' ''output''"
    by code_simp+
  have c4: "failed_with (msg_unsupported_output ''pdf'')
      (convert ex_platform ex_forge ex_fs (InPath ''a.txt'') ''pdf'' None)"
    using inst [of "InPath ''a.txt''" "''pdf''" None] p4 d4 s4 t4 by blast
  have p5: "prepare_input ex_fs (InBytes ''%PDF-1.4'') = Inr (''%PDF-1.4'', None)"
    by code_simp
  have d5: "detect_format ex_platform ex_forge ''%PDF-1.4'' None = Inr ''pdf''"
    by code_simp
  have s5: "is_format_supported ex_forge ''pdf'' ''input''"
    and t5: "is_format_supported ex_forge ''md'' ''output''"
    by code_simp+
  have m5: "metadata_step ex_platform ex_forge ex_fs ''%PDF-1.4'' ''pdf'' (effective_options ''md'' None)
      = Inr None"
    by code_simp
  have f5: "''pdf'' \<noteq> ''md'' \<and> find_plugin ex_forge ''pdf'' ''md'' = None"
    by code_simp
  have c5: "failed_with (msg_no_conversion ''pdf'' ''md'')
      (convert ex_platform ex_forge ex_fs (InBytes ''%PDF-1.4'') ''md'' None)"
    using inst [of "InBytes ''%PDF-1.4''" "''md''" None] p5 d5 s5 t5 m5 f5 by blast
  have p6: "prepare_input ex_fs (InPath ''data.csv'') = Inr (''1,2'', Some ''data.csv'')"
    by code_simp
  have d6: "detect_format ex_platform ex_forge ''1,2'' (Some ''data.csv'') = Inr ''csv''"
    by code_simp
  have s6: "is_format_supported ex_forge ''csv'' ''input''"
    by code_simp
  have m6: "metadata_step ex_platform ex_forge ex_fs ''1,2'' ''csv'' (effective_options ''md'' None)
      = Inr None"
    by code_simp
  have f6: "''csv'' \<noteq> ''md'' \<and> find_plugin ex_forge ''csv'' ''md'' = Some ex_broken_plugin
      \<and> run_plugin ex_broken_plugin ''1,2'' (effective_options ''md'' None)
          = Inl (PyExc ''RuntimeError'' ''corrupt input'')"
    by (simp add: find_plugin_def can_convert_def ex_forge_def ex_plugin_def ex_pdf_plugin_def
        ex_broken_plugin_def run_plugin_def)
  have c6: "failed_with ''corrupt input''
      (convert ex_platform ex_forge ex_fs (InPath ''data.csv'') ''md'' None)"
    using inst [of "InPath ''data.csv''" "''md''" None] p6 d6 s6 t5 m6 f6 by fastforce
  have m7: "metadata_step ex_platform ex_forge ex_fs ''hello'' ''txt'' (effective_options ''md'' (Some ?save))
      = Inr None"
    by code_simp
  have e7: "execute_conversion ex_forge ''hello'' ''txt'' ''md'' (effective_options ''md'' (Some ?save))
      = Inr ''olleh''"
    by code_simp
  have o7: "truthy (output_dir (effective_options ''md'' (Some ?save)))"
    by code_simp
  have w7: "save_output ex_platform ex_fs ''olleh'' ''md'' (effective_options ''md'' (Some ?save))
      (Some ''a.txt'') = Inl (PyExc ''PermissionError'' ''denied'')"
    by (simp add: save_output_def write_file_def ex_platform_def effective_options_def Let_def)
  have c7: "failed_with ''denied''
      (convert ex_platform ex_forge ex_fs (InPath ''a.txt'') ''md'' (Some ?save))"
    using inst [of "InPath ''a.txt''" "''md''" "Some ?save"] p4 d4 s4 t5 m7 e7 o7 w7 by fastforce
  show ?thesis
    using c1 c2 c3 c4 c5 c6 c7 by blast
qed

subsection \<open>The shape of a result\<close>

text \<open>
  Claim C2. Every result that \<^verbatim>\<open>convert\<close> returns has the shape the data model asks
  for: with \<^verbatim>\<open>success=False\<close> the data is absent and \<^verbatim>\<open>errors\<close> is not empty; with
  \<^verbatim>\<open>success=True\<close> the data or the output path is present.
\<close>

theorem convert_result_shape:
  "\<exists>r opts' fs'. convert pf self fs inp out_format options = Inr (r, opts', fs')
     \<and> (\<not> success r \<longrightarrow> data r = None \<and> errors r \<noteq> [])
     \<and> (success r \<longrightarrow> data r \<noteq> None \<or> output_path r \<noteq> None)"
proof (cases "convert_try pf self fs inp out_format (effective_options out_format options)")
  case (Inl e)
  then show ?thesis
    by (simp add: convert_eq failure_result_def)
next
  case (Inr a)
  then obtain r fs' where a: "a = (r, fs')" by (cases a)
  with Inr convert_try_success [of pf self fs inp out_format _ r fs'] show ?thesis
    by (simp add: convert_eq)
qed

text \<open>
  A successful and a failed conversion on the concrete engine.
\<close>

theorem convert_result_shape_witness:
  "(\<exists>r. result_of (convert ex_platform ex_forge ex_fs (InPath ''a.txt'') ''md'' None) = Some r
        \<and> success r \<and> data r = Some ''olleh'')
   \<and> (\<exists>r. result_of (convert ex_platform ex_forge ex_fs (InPath ''a.txt'') ''pdf'' None) = Some r
        \<and> \<not> success r \<and> data r = None \<and> errors r = [msg_unsupported_output ''pdf''])"
proof -
  have ok: "map_option (\<lambda>r. (success r, data r))
      (result_of (convert ex_platform ex_forge ex_fs (InPath ''a.txt'') ''md'' None))
      = Some (True, Some ''olleh'')"
    by code_simp
  have bad: "map_option (\<lambda>r. (success r, errors r))
      (result_of (convert ex_platform ex_forge ex_fs (InPath ''a.txt'') ''pdf'' None))
      = Some (False, [msg_unsupported_output ''pdf''])"
    by code_simp
  from convert_result_shape [of ex_platform ex_forge ex_fs "InPath ''a.txt''" "''md''" None] ok
  have 1: "\<exists>r. result_of (convert ex_platform ex_forge ex_fs (InPath ''a.txt'') ''md'' None) = Some r
        \<and> success r \<and> data r = Some ''olleh''"
    by (auto simp: result_of_def)
  from convert_result_shape [of ex_platform ex_forge ex_fs "InPath ''a.txt''" "''pdf''" None] bad
  have 2: "\<exists>r. result_of (convert ex_platform ex_forge ex_fs (InPath ''a.txt'') ''pdf'' None) = Some r
        \<and> \<not> success r \<and> data r = None \<and> errors r = [msg_unsupported_output ''pdf'']"
    by (auto simp: result_of_def)
  from 1 2 show ?thesis by blast
qed

subsection \<open>An output format no plugin declares\<close>

lemma not_supported_output:
  assumes "\<forall>p \<in> set (plugin_manager self). out_format \<notin> set (output_formats p)"
  shows "\<not> is_format_supported self out_format ''output''"
  using assms by (auto simp: is_format_supported_def list_ex_iff)

text \<open>
  Claim C5. When the input is read, its format is detected and some plugin declares it
  as an input format, but no registered plugin declares the requested output format as
  an output, \<^verbatim>\<open>convert\<close> returns a result (it raises nothing) with \<^verbatim>\<open>success=False\<close>
  whose \<^verbatim>\<open>errors\<close> list holds the message of the unsupported output format.
\<close>

theorem unsupported_output_reported:
  assumes "prepare_input fs inp = Inr (buf, path)"
    and "detect_format pf self buf path = Inr f"
    and "is_format_supported self f ''input''"
    and "\<forall>p \<in> set (plugin_manager self). out_format \<notin> set (output_formats p)"
  shows "failed_with (msg_unsupported_output out_format) (convert pf self fs inp out_format options)"
proof -
  have "convert_try pf self fs inp out_format (effective_options out_format options)
      = Inl (ValueError (msg_unsupported_output out_format))"
    using assms(1-3) not_supported_output [OF assms(4)] by (rule try_unsupported_output)
  from convert_failed_with [OF this] show ?thesis
    by (simp add: ValueError_def)
qed

text \<open>
  The text file of the concrete engine, asked for as PDF.
\<close>

theorem unsupported_output_reported_witness:
  "prepare_input ex_fs (InPath ''a.txt'') = Inr (''hello'', Some ''a.txt'')
   \<and> detect_format ex_platform ex_forge ''hello'' (Some ''a.txt'') = Inr ''txt''
   \<and> is_format_supported ex_forge ''txt'' ''input''
   \<and> failed_with (msg_unsupported_output ''pdf'')
        (convert ex_platform ex_forge ex_fs (InPath ''a.txt'') ''pdf'' None)"
proof -
  have p: "prepare_input ex_fs (InPath ''a.txt'') = Inr (''hello'', Some ''a.txt'')"
    by code_simp
  have d: "detect_format ex_platform ex_forge ''hello'' (Some ''a.txt'') = Inr ''txt''"
    by code_simp
  have s: "is_format_supported ex_forge ''txt'' ''input''"
    by code_simp
  have n: "\<forall>p \<in> set (plugin_manager ex_forge). ''pdf'' \<notin> set (output_formats p)"
    by (simp add: ex_forge_def ex_plugin_def ex_pdf_plugin_def ex_broken_plugin_def)
  from unsupported_output_reported [OF p d s n, of None] p d s show ?thesis
    by blast
qed

subsection \<open>The options object of the caller\<close>

text \<open>
  Claim C10, as the code has it. \<^verbatim>\<open>convert\<close> assigns the requested output format to
  the field \<^verbatim>\<open>output_format\<close> of the caller's options object, before the \<^verbatim>\<open>try\<close>
  block; after the call, whether it succeeded or not, the object is the caller's with
  that one field set, and every other field is as before.
\<close>

theorem convert_sets_output_format:
  "\<exists>r fs'. convert pf self fs inp out_format (Some opts)
     = Inr (r, Some (opts\<lparr>output_format := Some out_format\<rparr>), fs')"
  by (simp add: convert_eq caller_options_def split: sum.splits prod.splits)

text \<open>
  Claim C10 as stated fails: the caller's options object has \<^verbatim>\<open>output_format=None\<close>
  before the call and \<^verbatim>\<open>output_format='md'\<close> after it.
\<close>

theorem convert_mutates_options:
  "output_format default_options = None
   \<and> map_option output_format
        (options_after (convert ex_platform ex_forge ex_fs (InPath ''a.txt'') ''md'' (Some default_options)))
       = Some (Some ''md'')"
  by code_simp

subsection \<open>A failing metadata step\<close>

lemma convert_warnings_empty:
  "map_option warnings (result_of (convert pf self fs inp out_format options)) = Some []"
proof (cases "convert_try pf self fs inp out_format (effective_options out_format options)")
  case (Inl e)
  then show ?thesis
    by (simp add: convert_eq failure_result_def result_of_def)
next
  case (Inr a)
  then obtain r fs' where a: "a = (r, fs')" by (cases a)
  with Inr convert_try_success [of pf self fs inp out_format _ r fs'] show ?thesis
    by (simp add: convert_eq result_of_def)
qed

text \<open>
  Claim C8, as the code has it. \<^verbatim>\<open>extract_metadata\<close> is called inside the \<^verbatim>\<open>try\<close>
  block with no handler of its own. When \<^verbatim>\<open>options.metadata\<close> is set and the call
  raises, for an input that is read, detected and supported as input, with a supported
  output format, \<^verbatim>\<open>convert\<close> returns \<^verbatim>\<open>success=False\<close> with the message of the
  exception as the content of \<^verbatim>\<open>errors\<close>; the \<^verbatim>\<open>warnings\<close> list of a result of
  \<^verbatim>\<open>convert\<close> is always empty.
\<close>

theorem metadata_failure_fails_conversion:
  assumes "prepare_input fs inp = Inr (buf, path)"
    and "detect_format pf self buf path = Inr f"
    and "is_format_supported self f ''input''"
    and "is_format_supported self out_format ''output''"
    and "metadata (effective_options out_format options)"
    and "extract_metadata pf self fs (InBytes buf) (Some f) = Inl e"
  shows "failed_with (exc_str e) (convert pf self fs inp out_format options)
         \<and> map_option warnings (result_of (convert pf self fs inp out_format options)) = Some []"
proof -
  have "metadata_step pf self fs buf f (effective_options out_format options) = Inl e"
    using assms(5,6) by (simp add: metadata_step_def)
  with assms(1-4)
  have "convert_try pf self fs inp out_format (effective_options out_format options) = Inl e"
    by (rule try_metadata_error)
  then have "failed_with (exc_str e) (convert pf self fs inp out_format options)"
    by (rule convert_failed_with)
  then show ?thesis
    by (simp add: convert_warnings_empty)
qed

text \<open>
  The text file of the concrete engine, with an extractor that raises.
\<close>

theorem metadata_failure_fails_conversion_witness:
  "failed_with ''no metadata''
     (convert ex_platform ex_forge_no_metadata ex_fs (InPath ''a.txt'') ''md''
        (Some (default_options\<lparr>metadata := True\<rparr>)))
   \<and> map_option warnings
        (result_of (convert ex_platform ex_forge_no_metadata ex_fs (InPath ''a.txt'') ''md''
           (Some (default_options\<lparr>metadata := True\<rparr>)))) = Some []"
proof -
  let ?opts = "Some (default_options\<lparr>metadata := True\<rparr>)"
  have p: "prepare_input ex_fs (InPath ''a.txt'') = Inr (''hello'', Some ''a.txt'')"
    by code_simp
  have d: "detect_format ex_platform ex_forge_no_metadata ''hello'' (Some ''a.txt'') = Inr ''txt''"
    by code_simp
  have s: "is_format_supported ex_forge_no_metadata ''txt'' ''input''"
    and t: "is_format_supported ex_forge_no_metadata ''md'' ''output''"
    by code_simp+
  have m: "metadata (effective_options ''md'' ?opts)"
    by code_simp
  have x: "extract_metadata ex_platform ex_forge_no_metadata ex_fs (InBytes ''hello'') (Some ''txt'')
      = Inl (PyExc ''RuntimeError'' ''no metadata'')"
    by (simp add: extract_metadata_def prepare_input_def ex_forge_no_metadata_def ex_forge_def)
  from metadata_failure_fails_conversion [OF p d s t m x] show ?thesis
    by simp
qed

text \<open>
  Claim C8 as stated fails: the same input converts with \<^verbatim>\<open>metadata=False\<close>; with
  \<^verbatim>\<open>metadata=True\<close> and an extractor that raises, the result has \<^verbatim>\<open>success=False\<close>,
  the message in \<^verbatim>\<open>errors\<close> and nothing in \<^verbatim>\<open>warnings\<close>.
\<close>

theorem metadata_failure_counterexample:
  "map_option success
     (result_of (convert ex_platform ex_forge_no_metadata ex_fs (InPath ''a.txt'') ''md''
        (Some default_options))) = Some True
   \<and> map_option success
       (result_of (convert ex_platform ex_forge_no_metadata ex_fs (InPath ''a.txt'') ''md''
          (Some (default_options\<lparr>metadata := True\<rparr>)))) = Some False
   \<and> map_option errors
       (result_of (convert ex_platform ex_forge_no_metadata ex_fs (InPath ''a.txt'') ''md''
          (Some (default_options\<lparr>metadata := True\<rparr>)))) = Some [''no metadata'']
   \<and> map_option warnings
       (result_of (convert ex_platform ex_forge_no_metadata ex_fs (InPath ''a.txt'') ''md''
          (Some (default_options\<lparr>metadata := True\<rparr>)))) = Some []"
  by code_simp

subsection \<open>Converting a file to its own format\<close>

text \<open>
  Claim C4, as the code has it. When the detected format equals the requested output
  format, plugins declare that format both as an input and as an output format, the
  compression is \<^verbatim>\<open>CompressionLevel.NONE\<close>, the metadata step (if requested) returns
  and the save step (if requested) succeeds, \<^verbatim>\<open>convert\<close> returns \<^verbatim>\<open>success=True\<close>
  with data equal to the input bytes.
\<close>

theorem same_format_none_identity:
  assumes "prepare_input fs inp = Inr (buf, path)"
    and "detect_format pf self buf path = Inr out_format"
    and "is_format_supported self out_format ''input''"
    and "is_format_supported self out_format ''output''"
    and "compression (effective_options out_format options) = Level NONE"
    and "metadata_step pf self fs buf out_format (effective_options out_format options) = Inr md"
    and "\<not> (truthy (output_dir (effective_options out_format options))
            \<or> truthy (output_name (effective_options out_format options)))
         \<or> (\<exists>saved. save_output pf fs buf out_format (effective_options out_format options) path
               = Inr saved)"
  shows "\<exists>r opts' fs'. convert pf self fs inp out_format options = Inr (r, opts', fs')
           \<and> success r \<and> data r = Some buf"
proof -
  have "execute_conversion self buf out_format out_format (effective_options out_format options)
      = Inr buf"
    using assms(5) by (rule execute_same_format_none)
  from try_success [OF assms(1-4) assms(6) this assms(7)] show ?thesis
    by (auto simp: convert_eq)
qed

text \<open>
  The text file of the concrete engine converted to \<^verbatim>\<open>txt\<close>, which one plugin
  reads and another writes.
\<close>

theorem same_format_none_identity_witness:
  "\<exists>r opts' fs'.
      convert ex_platform ex_forge ex_fs (InPath ''a.txt'') ''txt''
        (Some (default_options\<lparr>compression := Level NONE\<rparr>)) = Inr (r, opts', fs')
      \<and> success r \<and> data r = Some ''hello''"
proof -
  let ?opts = "Some (default_options\<lparr>compression := Level NONE\<rparr>)"
  have p: "prepare_input ex_fs (InPath ''a.txt'') = Inr (''hello'', Some ''a.txt'')"
    by code_simp
  have d: "detect_format ex_platform ex_forge ''hello'' (Some ''a.txt'') = Inr ''txt''"
    by code_simp
  have s: "is_format_supported ex_forge ''txt'' ''input''"
    and t: "is_format_supported ex_forge ''txt'' ''output''"
    by code_simp+
  have c: "compression (effective_options ''txt'' ?opts) = Level NONE"
    by code_simp
  have m: "metadata_step ex_platform ex_forge ex_fs ''hello'' ''txt'' (effective_options ''txt'' ?opts)
      = Inr None"
    by code_simp
  have n: "\<not> (truthy (output_dir (effective_options ''txt'' ?opts))
            \<or> truthy (output_name (effective_options ''txt'' ?opts)))
         \<or> (\<exists>saved. save_output ex_platform ex_fs ''hello'' ''txt'' (effective_options ''txt'' ?opts)
               (Some ''a.txt'') = Inr saved)"
    by (simp add: effective_options_def default_options_def)
  from same_format_none_identity [OF p d s t c m n] show ?thesis .
qed

text \<open>
  Claim C4 as stated fails: a PDF buffer is detected as \<^verbatim>\<open>pdf\<close>, which a plugin
  reads and none writes; converting it to \<^verbatim>\<open>pdf\<close> with compression
  \<^verbatim>\<open>CompressionLevel.NONE\<close> is refused by the check of the output format.
\<close>

theorem same_format_counterexample:
  "prepare_input ex_fs (InBytes ''%PDF-1.4'') = Inr (''%PDF-1.4'', None)
   \<and> detect_format ex_platform ex_forge ''%PDF-1.4'' None = Inr ''pdf''
   \<and> compression (default_options\<lparr>compression := Level NONE\<rparr>) = Level NONE
   \<and> failed_with (msg_unsupported_output ''pdf'')
       (convert ex_platform ex_forge ex_fs (InBytes ''%PDF-1.4'') ''pdf''
          (Some (default_options\<lparr>compression := Level NONE\<rparr>)))"
  by code_simp

section \<open>Format detection\<close>

text \<open>
  Claim C6. \<^verbatim>\<open>_detect_format\<close> resolves the format in priority order, the first match
  winning: the lowercased extension of the path hint if it is a registered input format;
  otherwise the extension that the MIME type of the placeholder name maps back to, if
  that is registered; otherwise what the signature of the buffer gives. The value is a
  function of the buffer, the hint, the registry and the standard library's tables, and
  of nothing else: \<open>detect_spec\<close> is the detector in the words of the spec.
\<close>

theorem detect_format_first_match:
  "detect_format pf self buffer file_path = detect_spec pf self buffer file_path"
  by (cases file_path)
     (auto simp: detect_format_def detect_by_mime_def detect_spec_def hint_extension_def
        mime_extension_def placeholder_name_def Let_def
        split: option.splits)

text \<open>
  The three steps on the concrete engine: by extension, by MIME type, by signature.
\<close>

theorem detect_format_first_match_witness:
  "detect_spec ex_platform ex_forge ''hello'' (Some ''a.txt'') = Inr ''txt''
   \<and> detect_spec ex_platform ex_forge ''plain'' (Some ''notes.text'') = Inr ''txt''
   \<and> detect_spec ex_platform ex_forge ''%PDF-1.4'' (Some ''notes'') = Inr ''pdf''
   \<and> detect_spec ex_platform ex_forge ''%PDF-1.4'' None = Inr ''pdf''"
proof -
  have "detect_format ex_platform ex_forge ''hello'' (Some ''a.txt'') = Inr ''txt''"
    and "detect_format ex_platform ex_forge ''plain'' (Some ''notes.text'') = Inr ''txt''"
    and "detect_format ex_platform ex_forge ''%PDF-1.4'' (Some ''notes'') = Inr ''pdf''"
    and "detect_format ex_platform ex_forge ''%PDF-1.4'' None = Inr ''pdf''"
    by code_simp+
  then show ?thesis
    by (simp add: detect_format_first_match)
qed

section \<open>Properties of convert\_batch\<close>

lemma convert_file_try_errors:
  assumes "convert_file_try pf self out_format n st file_path = (r, st')"
  shows "var_errors st' = var_errors st"
  using assms
  by (auto simp: convert_file_try_def Let_def split: sum.splits prod.splits option.splits)

lemma convert_file_except_errors:
  assumes "convert_file_except st file_path e = (r, st')"
  shows "length (var_errors st') = Suc (length (var_errors st)) \<and> conversion_results [r] = []"
  using assms
  by (auto simp: convert_file_except_def Let_def split: option.splits if_splits)

lemma convert_file_count:
  assumes "convert_file pf self out_format n st file_path = (r, st')"
  shows "length (conversion_results [r]) + length (var_errors st') = Suc (length (var_errors st))"
proof (cases "convert_file_try pf self out_format n st file_path")
  case (Pair a st1)
  note tr = this
  show ?thesis
  proof (cases a)
    case (Inl e)
    with tr assms have "convert_file_except st1 file_path e = (r, st')"
      by (simp add: convert_file_def)
    from convert_file_except_errors [OF this] convert_file_try_errors [OF tr]
    show ?thesis by simp
  next
    case (Inr res)
    with tr assms have "r = Returned (Some res)" and "st' = st1"
      by (simp_all add: convert_file_def)
    with convert_file_try_errors [OF tr] show ?thesis by simp
  qed
qed

lemma conversion_results_Cons:
  "conversion_results (r # rs) = conversion_results [r] @ conversion_results rs"
  by (cases "(r # rs)" rule: conversion_results.cases) auto

lemma gather_count:
  assumes "gather pf self out_format n st files = (rs, st')"
  shows "length (conversion_results rs) + length (var_errors st')
           = length files + length (var_errors st)"
  using assms
proof (induction files arbitrary: st rs st')
  case Nil
  then show ?case by simp
next
  case (Cons file_path files)
  obtain r st1 where step: "convert_file pf self out_format n st file_path = (r, st1)"
    by (cases "convert_file pf self out_format n st file_path")
  obtain rs1 st2 where rest: "gather pf self out_format n st1 files = (rs1, st2)"
    by (cases "gather pf self out_format n st1 files")
  from Cons.prems step rest have rs: "rs = r # rs1" and st': "st' = st2"
    by simp_all
  from Cons.IH [OF rest] convert_file_count [OF step] show ?case
    unfolding rs st' by (simp add: conversion_results_Cons [of r rs1])
qed

text \<open>
  Claim C3, as the code has it. For every list of patterns and every options value with
  \<^verbatim>\<open>max_concurrency >= 1\<close>, \<^verbatim>\<open>convert_batch\<close> returns; \<^verbatim>\<open>total_files\<close> is the
  number of glob matches summed over the patterns, duplicates kept; and the results with
  \<^verbatim>\<open>success=True\<close>, the results with \<^verbatim>\<open>success=False\<close> and \<^verbatim>\<open>error_count\<close> add up
  to \<^verbatim>\<open>total_files\<close>. This holds for both values of \<^verbatim>\<open>continue_on_error\<close>.
\<close>

theorem batch_counts:
  assumes "0 < max_concurrency (batch_options_or_default options)"
  shows "\<exists>r st. convert_batch pf self fs pats out_format options = Some (Inr (r, st))
           \<and> total_files r = (\<Sum>p\<leftarrow>patterns_list pats. length (glob_glob pf p))
           \<and> success_count r = length (filter success (results r))
           \<and> length (filter success (results r))
               + length (filter (\<lambda>x. \<not> success x) (results r))
               + error_count r = total_files r"
proof -
  let ?files = "concat (map (glob_glob pf) (patterns_list pats))"
  let ?st0 = "\<lparr>bs_fs = fs, bs_options = batch_options_or_default options, var_results = [],
               var_errors = [], progress_calls = [], error_calls = []\<rparr>"
  obtain rs st where g: "gather pf self out_format (length ?files) ?st0 ?files = (rs, st)"
    by (cases "gather pf self out_format (length ?files) ?st0 ?files")
  from gather_count [OF g]
  have count: "length (conversion_results rs) + length (var_errors st) = length ?files"
    by simp
  have len: "length ?files = (\<Sum>p\<leftarrow>patterns_list pats. length (glob_glob pf p))"
    by (simp add: length_concat comp_def)
  have split: "length (filter success (conversion_results rs))
      + length (filter (\<lambda>x. \<not> success x) (conversion_results rs))
      = length (conversion_results rs)"
    by (rule sum_length_filter_compl)
  from assms g count len split show ?thesis
    by (simp add: convert_batch_def Let_def)
qed

text \<open>
  Three matches from overlapping patterns on the concrete engine.
\<close>

theorem batch_counts_witness:
  "\<exists>r st. convert_batch ex_platform ex_forge ex_fs (PatternList [''*.txt'', ''a.*'', ''missing.*'']) ''md''
       (Some ex_progress_options) = Some (Inr (r, st))
     \<and> total_files r = 3"
proof -
  have m: "0 < max_concurrency (batch_options_or_default (Some ex_progress_options))"
    by code_simp
  have s: "(\<Sum>p\<leftarrow>patterns_list (PatternList [''*.txt'', ''a.*'', ''missing.*'']).
      length (glob_glob ex_platform p)) = 3"
    by code_simp
  from batch_counts [OF m, of ex_platform ex_forge ex_fs "PatternList [''*.txt'', ''a.*'', ''missing.*'']" "''md''"] s
  show ?thesis by auto
qed

text \<open>
  Claim C3 as stated fails: the dataclass accepts any integer as \<^verbatim>\<open>max_concurrency\<close>.
  With \<^verbatim>\<open>continue_on_error=True\<close>, \<^verbatim>\<open>max_concurrency=0\<close> and two matching files,
  every task waits on \<^verbatim>\<open>asyncio.Semaphore(0)\<close> for a slot that is never released, and
  \<^verbatim>\<open>convert_batch\<close> never returns a result.
\<close>

theorem batch_zero_slots_never_returns:
  "continue_on_error (default_batch_options\<lparr>max_concurrency := 0\<rparr>)
   \<and> glob_glob ex_platform ''*.txt'' = [''a.txt'', ''b.txt'']
   \<and> convert_batch ex_platform ex_forge ex_fs (OnePattern ''*.txt'') ''md''
        (Some (default_batch_options\<lparr>max_concurrency := 0\<rparr>)) = None"
  by (simp add: convert_batch_def batch_options_or_default_def default_batch_options_def
      patterns_list_def ex_platform_def ConversionOptions.extend_def
      BatchConversionOptions.fields_def)

text \<open>
  Claim C7 fails on the code. With \<^verbatim>\<open>continue_on_error=False\<close> and a progress
  callback that raises, each task records its error and calls the error callback, then
  re-raises; \<^verbatim>\<open>asyncio.gather(..., return_exceptions=True)\<close> keeps the exception as a
  list element, so the second file is still processed and \<^verbatim>\<open>convert_batch\<close> returns
  an ordinary result with two error entries.
\<close>

theorem batch_error_not_surfaced:
  "map_option total_files
     (batch_result_of (convert_batch ex_platform ex_forge ex_fs (OnePattern ''*.txt'') ''md''
        (Some ex_stop_options))) = Some 2
   \<and> map_option error_count
       (batch_result_of (convert_batch ex_platform ex_forge ex_fs (OnePattern ''*.txt'') ''md''
          (Some ex_stop_options))) = Some 2
   \<and> map_option batch_errors
       (batch_result_of (convert_batch ex_platform ex_forge ex_fs (OnePattern ''*.txt'') ''md''
          (Some ex_stop_options))) = Some [(''a.txt'', ''boom''), (''b.txt'', ''boom'')]
   \<and> map_option error_calls
       (batch_state_of (convert_batch ex_platform ex_forge ex_fs (OnePattern ''*.txt'') ''md''
          (Some ex_stop_options)))
       = Some [(PyExc ''RuntimeError'' ''boom'', ''a.txt''), (PyExc ''RuntimeError'' ''boom'', ''b.txt'')]"
  by code_simp

text \<open>
  Claim C9 fails on the code. The count passed to the progress callback is
  \<^verbatim>\<open>len(results) + 1\<close>, and \<^verbatim>\<open>results\<close> is empty until the tasks are over: both
  calls of a batch of two files carry the count 1.
\<close>

theorem progress_count_constant:
  "map_option total_files
     (batch_result_of (convert_batch ex_platform ex_forge ex_fs (OnePattern ''*.txt'') ''md''
        (Some ex_progress_options))) = Some 2
   \<and> map_option progress_calls
       (batch_state_of (convert_batch ex_platform ex_forge ex_fs (OnePattern ''*.txt'') ''md''
          (Some ex_progress_options))) = Some [(1, 2, ''a.txt''), (1, 2, ''b.txt'')]"
  by code_simp

subsection \<open>The count passed to the progress callback, in general\<close>

lemma convert_file_try_progress:
  assumes "convert_file_try pf self out_format n st file_path = (r, st')"
  shows "var_results st' = var_results st
         \<and> set (progress_calls st')
             \<subseteq> insert (length (var_results st) + 1, n, file_path) (set (progress_calls st))"
  using assms
  by (auto simp: convert_file_try_def Let_def split: sum.splits prod.splits option.splits)

lemma convert_file_except_progress:
  assumes "convert_file_except st file_path e = (r, st')"
  shows "var_results st' = var_results st \<and> progress_calls st' = progress_calls st"
  using assms
  by (auto simp: convert_file_except_def Let_def split: option.splits if_splits)

lemma convert_file_progress:
  assumes "convert_file pf self out_format n st file_path = (r, st')"
  shows "var_results st' = var_results st
         \<and> set (progress_calls st')
             \<subseteq> insert (length (var_results st) + 1, n, file_path) (set (progress_calls st))"
proof (cases "convert_file_try pf self out_format n st file_path")
  case (Pair a st1)
  note tr = convert_file_try_progress [OF this]
  show ?thesis
  proof (cases a)
    case (Inl e)
    with Pair assms have "convert_file_except st1 file_path e = (r, st')"
      by (simp add: convert_file_def)
    from convert_file_except_progress [OF this] tr show ?thesis by simp
  next
    case (Inr res)
    with Pair assms have "st' = st1"
      by (simp add: convert_file_def)
    with tr show ?thesis by simp
  qed
qed

lemma gather_progress:
  assumes "gather pf self out_format n st files = (rs, st')"
    and "var_results st = []"
    and "\<forall>c \<in> set (progress_calls st). fst c = 1"
  shows "var_results st' = [] \<and> (\<forall>c \<in> set (progress_calls st'). fst c = 1)"
  using assms
proof (induction files arbitrary: st rs st')
  case Nil
  then show ?case by simp
next
  case (Cons file_path files)
  obtain r st1 where step: "convert_file pf self out_format n st file_path = (r, st1)"
    by (cases "convert_file pf self out_format n st file_path")
  obtain rs1 st2 where rest: "gather pf self out_format n st1 files = (rs1, st2)"
    by (cases "gather pf self out_format n st1 files")
  from Cons.prems(1) step rest have st': "st' = st2"
    by simp
  from convert_file_progress [OF step] Cons.prems(2,3)
  have "var_results st1 = []" and "\<forall>c \<in> set (progress_calls st1). fst c = 1"
    by auto
  from Cons.IH [OF rest this] show ?case
    unfolding st' .
qed

text \<open>
  In every batch that returns, every call the progress callback received carries the
  count 1, whatever the number of files.
\<close>

theorem progress_current_always_one:
  assumes "convert_batch pf self fs pats out_format options = Some (Inr (r, st))"
  shows "\<forall>c \<in> set (progress_calls st). fst c = 1"
proof -
  let ?files = "concat (map (glob_glob pf) (patterns_list pats))"
  let ?st0 = "\<lparr>bs_fs = fs, bs_options = batch_options_or_default options, var_results = [],
               var_errors = [], progress_calls = [], error_calls = []\<rparr>"
  obtain rs st1 where g: "gather pf self out_format (length ?files) ?st0 ?files = (rs, st1)"
    by (cases "gather pf self out_format (length ?files) ?st0 ?files")
  from assms g have "progress_calls st = progress_calls st1"
    by (auto simp: convert_batch_def Let_def split: if_splits)
  with gather_progress [OF g] show ?thesis
    by simp
qed

text \<open>Three files on the concrete engine: three calls, each with the count 1.\<close>

theorem progress_current_always_one_witness:
  "\<exists>r st. convert_batch ex_platform ex_forge ex_fs (PatternList [''*.txt'', ''a.*'']) ''md''
       (Some ex_progress_options) = Some (Inr (r, st))
     \<and> length (progress_calls st) = 3 \<and> list_all (\<lambda>c. fst c = 1) (progress_calls st)"
proof -
  let ?call = "convert_batch ex_platform ex_forge ex_fs (PatternList [''*.txt'', ''a.*'']) ''md''
       (Some ex_progress_options)"
  have n: "map_option (\<lambda>st. length (progress_calls st)) (batch_state_of ?call) = Some 3"
    by code_simp
  then obtain r st where c: "?call = Some (Inr (r, st))" and l: "length (progress_calls st) = 3"
    by (auto simp: batch_state_of_def split: option.splits sum.splits)
  from progress_current_always_one [OF c] l c show ?thesis
    by (auto simp: list_all_iff)
qed

end
